theory Spec2Isabelle
  imports Main "HOL-Library.Sublist"
begin

section \<open>twitter\_stream.py: the values the module handles\<close>

text \<open>
  Exceptions deriving from Python's \<^verbatim>\<open>Exception\<close>, each with the text that
  \<^verbatim>\<open>str(e)\<close> gives. \<open>ValueError\<close> is raised by the module itself (line 51),
  \<open>AttributeError\<close> by the interpreter on \<^verbatim>\<open>None.get\<close>, \<open>LibraryError\<close> stands for
  whatever the client library raises (network failure, rate limit, bad request).
\<close>

datatype exn = ValueError string | AttributeError string | LibraryError string

fun str :: "exn \<Rightarrow> string" where
  "str (ValueError m) = m"
| "str (AttributeError m) = m"
| "str (LibraryError m) = m"

text \<open>The lines that \<^verbatim>\<open>logging.info\<close>, \<^verbatim>\<open>logging.warning\<close> and
  \<^verbatim>\<open>logging.error\<close> emit, oldest first.\<close>

datatype level = INFO | WARNING | ERROR

type_synonym log = "(level \<times> string) list"

text \<open>\<^verbatim>\<open>sep.join(xs)\<close>.\<close>

fun join :: "string \<Rightarrow> string list \<Rightarrow> string" where
  "join sep [] = []"
| "join sep [x] = x"
| "join sep (x # y # ys) = x @ sep @ join sep (y # ys)"

text \<open>\<^verbatim>\<open>str(n)\<close> for a non-negative integer, as the f-string of line 122 formats
  \<^verbatim>\<open>len(processed_tweets)\<close>.\<close>

definition digit_char :: "nat \<Rightarrow> char" where
  "digit_char d = ''0123456789'' ! d"

fun str_nat :: "nat \<Rightarrow> string" where
  "str_nat n = (if n < 10 then [digit_char n] else str_nat (n div 10) @ [digit_char (n mod 10)])"

declare str_nat.simps [simp del]

section \<open>Credentials (lines 12 to 51)\<close>

text \<open>\<^verbatim>\<open>os.environ\<close>: a mapping from variable names to values;
  \<^verbatim>\<open>os.environ.get(name)\<close> is \<^verbatim>\<open>None\<close> for a variable that is not set.\<close>

type_synonym environ = "string \<rightharpoonup> string"

text \<open>Python's truth value of \<^verbatim>\<open>os.environ.get(name)\<close>: \<^verbatim>\<open>None\<close> and the empty
  string are false, every other string is true.\<close>

fun truthy :: "string option \<Rightarrow> bool" where
  "truthy None = False"
| "truthy (Some s) = (s \<noteq> [])"

record credentials =
  bearer_token :: "string option"
  api_key :: "string option"
  api_secret :: "string option"
  access_token :: "string option"
  access_token_secret :: "string option"

text \<open>Lines 16 to 20.\<close>

definition read_credentials :: "environ \<Rightarrow> credentials" where
  "read_credentials env =
     \<lparr> bearer_token = env ''TWITTER_BEARER_TOKEN'',
       api_key = env ''TWITTER_API_KEY'',
       api_secret = env ''TWITTER_API_SECRET'',
       access_token = env ''TWITTER_ACCESS_TOKEN'',
       access_token_secret = env ''TWITTER_ACCESS_TOKEN_SECRET'' \<rparr>"

text \<open>Lines 39 to 49: the list \<^verbatim>\<open>missing\<close>, one conditional append per credential.\<close>

definition missing :: "'a credentials_scheme \<Rightarrow> string list" where
  "missing self =
     (if \<not> truthy (bearer_token self) then [''TWITTER_BEARER_TOKEN''] else []) @
     (if \<not> truthy (api_key self) then [''TWITTER_API_KEY''] else []) @
     (if \<not> truthy (api_secret self) then [''TWITTER_API_SECRET''] else []) @
     (if \<not> truthy (access_token self) then [''TWITTER_ACCESS_TOKEN''] else []) @
     (if \<not> truthy (access_token_secret self) then [''TWITTER_ACCESS_TOKEN_SECRET''] else [])"

definition missing_message :: "string list \<Rightarrow> string" where
  "missing_message names =
     ''Missing required Twitter API credentials. Need either TWITTER_BEARER_TOKEN or OAuth credentials: ''
       @ join '', '' names"

text \<open>Lines 34 to 51: \<^verbatim>\<open>_validate_credentials\<close> returns nothing or raises
  \<^verbatim>\<open>ValueError\<close>.\<close>

definition validate_credentials :: "'a credentials_scheme \<Rightarrow> exn + unit" where
  "validate_credentials self =
     (if \<not> truthy (bearer_token self) \<and>
         \<not> (truthy (api_key self) \<and> truthy (api_secret self) \<and>
            truthy (access_token self) \<and> truthy (access_token_secret self))
      then Inl (ValueError (missing_message (missing self)))
      else Inr ())"

section \<open>The client (lines 53 to 74) and construction (lines 12 to 32)\<close>

text \<open>The keyword arguments of \<^verbatim>\<open>tweepy.Client(...)\<close> that the module passes; an
  argument left out is \<^verbatim>\<open>None\<close>.\<close>

record client_args =
  arg_bearer_token :: "string option"
  consumer_key :: "string option"
  consumer_secret :: "string option"
  arg_access_token :: "string option"
  arg_access_token_secret :: "string option"

text \<open>\<^verbatim>\<open>_initialize_client\<close>, over the library's constructor \<open>Client\<close>, which returns
  a client or raises. The handler of line 72 logs and raises the same exception again.\<close>

definition initialize_client ::
  "(client_args \<Rightarrow> exn + 'c) \<Rightarrow> 'a credentials_scheme \<Rightarrow> (exn + 'c) \<times> log" where
  "initialize_client Client self =
     (if truthy (bearer_token self) then
        (case Client \<lparr> arg_bearer_token = bearer_token self, consumer_key = None,
                        consumer_secret = None, arg_access_token = None,
                        arg_access_token_secret = None \<rparr> of
           Inr client \<Rightarrow>
             (Inr client, [(INFO, ''Twitter API v2 client initialized with Bearer Token'')])
         | Inl e \<Rightarrow> (Inl e, [(ERROR, ''Error initializing Twitter v2 client: '' @ str e)]))
      else
        (case Client \<lparr> arg_bearer_token = None, consumer_key = api_key self,
                        consumer_secret = api_secret self, arg_access_token = access_token self,
                        arg_access_token_secret = access_token_secret self \<rparr> of
           Inr client \<Rightarrow>
             (Inr client, [(INFO, ''Twitter API v2 client initialized with OAuth 1.0a'')])
         | Inl e \<Rightarrow> (Inl e, [(ERROR, ''Error initializing Twitter v2 client: '' @ str e)])))"

record 'c twitter_stream = credentials +
  client :: 'c
  hashtag :: string
  query :: string

text \<open>\<^verbatim>\<open>TwitterStream.__init__\<close>: the new object, or the exception that left the
  constructor, with the lines logged on the way.\<close>

definition init ::
  "environ \<Rightarrow> (client_args \<Rightarrow> exn + 'c) \<Rightarrow> string \<Rightarrow> (exn + 'c twitter_stream) \<times> log" where
  "init env Client tag =
     (let creds = read_credentials env in
      case validate_credentials creds of
        Inl e \<Rightarrow> (Inl e, [])
      | Inr _ \<Rightarrow>
          (case initialize_client Client creds of
             (Inl e, lg) \<Rightarrow> (Inl e, lg)
           | (Inr c, lg) \<Rightarrow>
               (Inr (credentials.extend creds
                       (twitter_stream.fields c tag (tag @ '' -is:retweet''))),
                lg @ [(INFO, ''TwitterStream initialized for hashtag: '' @ tag)])))"

section \<open>Timestamps (line 109)\<close>

text \<open>The fields of a \<^verbatim>\<open>datetime\<close> that the format of line 109 reads.\<close>

record datetime =
  year :: nat
  month :: nat
  day :: nat
  hour :: nat
  minute :: nat
  second :: nat

text \<open>What the \<^verbatim>\<open>datetime\<close> type guarantees of these fields, for a year of four
  digits, as the year of any current time and of any post is (a day that does not exist in
  its month is excluded by the type too; the format does not depend on it).\<close>

definition datetime_in_range :: "datetime \<Rightarrow> bool" where
  "datetime_in_range d =
     (1000 \<le> year d \<and> year d \<le> 9999 \<and> 1 \<le> month d \<and> month d \<le> 12 \<and>
      1 \<le> day d \<and> day d \<le> 31 \<and> hour d < 24 \<and> minute d < 60 \<and> second d < 60)"

definition zero_pad :: "nat \<Rightarrow> nat \<Rightarrow> string" where
  "zero_pad w n = replicate (w - length (str_nat n)) (CHR ''0'') @ str_nat n"

text \<open>The directives of \<^verbatim>\<open>strftime\<close>: \<^verbatim>\<open>%Y\<close> the year in decimal, four digits from
  the year 1000 on and fewer for a smaller year, which the platform's C library does not
  pad; \<^verbatim>\<open>%m %d %H %M %S\<close> two digits each, zero-padded. Another directive is left as
  it stands.\<close>

definition directive :: "datetime \<Rightarrow> char \<Rightarrow> string" where
  "directive d c =
     (if c = CHR ''Y'' then str_nat (year d)
      else if c = CHR ''m'' then zero_pad 2 (month d)
      else if c = CHR ''d'' then zero_pad 2 (day d)
      else if c = CHR ''H'' then zero_pad 2 (hour d)
      else if c = CHR ''M'' then zero_pad 2 (minute d)
      else if c = CHR ''S'' then zero_pad 2 (second d)
      else [CHR ''%'', c])"

fun strftime :: "datetime \<Rightarrow> string \<Rightarrow> string" where
  "strftime d [] = []"
| "strftime d [c] = [c]"
| "strftime d (c # x # cs) =
     (if c = CHR ''%'' then directive d x @ strftime d cs else c # strftime d (x # cs))"

text \<open>The shape of a string written with \<^verbatim>\<open>%Y-%m-%d %H:%M:%S\<close>: nineteen
  characters, digits but for the separators at their places.\<close>

definition is_digit :: "char \<Rightarrow> bool" where
  "is_digit c = (c \<in> set ''0123456789'')"

fun matches_shape :: "string \<Rightarrow> string \<Rightarrow> bool" where
  "matches_shape [] [] = True"
| "matches_shape (p # ps) (c # cs) =
     ((if p = CHR ''9'' then is_digit c else c = p) \<and> matches_shape ps cs)"
| "matches_shape _ _ = False"

definition matches_format :: "string \<Rightarrow> bool" where
  "matches_format s = matches_shape ''9999-99-99 99:99:99'' s"

section \<open>The response of the search (lines 85 to 101)\<close>

text \<open>What a \<^verbatim>\<open>public_metrics\<close> attribute holds: a mapping from counter names to
  counts, or \<^verbatim>\<open>None\<close>, which is what an attribute of the library's objects holds when
  the payload lacks the field (so does \<^verbatim>\<open>created_at\<close>, tested for it on line 109; the
  request of line 81 asks for no \<^verbatim>\<open>public_metrics\<close> of the authors). The attribute
  itself may be missing from the object, which is what \<^verbatim>\<open>hasattr\<close> (lines 117, 118) and
  the default of \<^verbatim>\<open>getattr\<close> (line 116) ask about: the slot of the attribute is an
  \<open>option\<close>.\<close>

datatype pyval = PyNone | PyDict "string \<rightharpoonup> int"

record user =
  u_id :: int
  u_username :: string
  u_public_metrics :: "pyval option"

record tweet =
  t_id :: int
  t_text :: string
  created_at :: "datetime option"
  author_id :: "int option"
  public_metrics :: "pyval option"

record response =
  data :: "tweet list option"
  includes' :: "string \<rightharpoonup> user list"

record search_request =
  query_arg :: string
  max_results :: int
  tweet_fields :: "string list"
  user_fields :: "string list"
  expansions :: "string list"

text \<open>One entry of \<^verbatim>\<open>processed_tweets\<close>: the dictionary of lines 111 to 119, a
  field for each key (\<open>p_id\<close> for \<^verbatim>\<open>"id"\<close>, \<open>p_text\<close> for \<^verbatim>\<open>"text"\<close>).\<close>

record processed_tweet =
  p_id :: int
  username :: string
  p_text :: string
  timestamp :: string
  user_followers :: int
  retweet_count :: int
  like_count :: int

section \<open>\<^verbatim>\<open>get_recent_tweets\<close> (lines 76 to 127)\<close>

text \<open>Running a step that may raise, then the rest: the first exception ends the
  \<^verbatim>\<open>try\<close> block.\<close>

definition and_then :: "exn + 'a \<Rightarrow> ('a \<Rightarrow> exn + 'b) \<Rightarrow> exn + 'b" where
  "and_then r f = (case r of Inl e \<Rightarrow> Inl e | Inr v \<Rightarrow> f v)"

text \<open>\<^verbatim>\<open>getattr(obj, name, default)\<close> on the slot of the attribute.\<close>

definition getattr :: "pyval option \<Rightarrow> pyval \<Rightarrow> pyval" where
  "getattr slot dflt = (case slot of None \<Rightarrow> dflt | Some v \<Rightarrow> v)"

text \<open>\<^verbatim>\<open>v.get(key, default)\<close>: the method of a mapping; \<^verbatim>\<open>None\<close> has no such
  method.\<close>

definition none_has_no_get :: string where
  "none_has_no_get =
     [CHR 0x27] @ ''NoneType'' @ [CHR 0x27] @ '' object has no attribute '' @
     [CHR 0x27] @ ''get'' @ [CHR 0x27]"

fun get :: "pyval \<Rightarrow> string \<Rightarrow> int \<Rightarrow> exn + int" where
  "get PyNone key dflt = Inl (AttributeError none_has_no_get)"
| "get (PyDict m) key dflt = Inr (case m key of None \<Rightarrow> dflt | Some v \<Rightarrow> v)"

text \<open>Line 101: the dictionary comprehension over \<^verbatim>\<open>response.includes['users']\<close>; a
  later author replaces an earlier one of the same id.\<close>

definition users_of :: "response \<Rightarrow> (int \<rightharpoonup> user)" where
  "users_of response =
     (case includes' response ''users'' of
        Some us \<Rightarrow> foldl (\<lambda>m u. m(u_id u \<mapsto> u)) Map.empty us
      | None \<Rightarrow> Map.empty)"

text \<open>Line 105: \<^verbatim>\<open>users.get(tweet.author_id)\<close>; the keys are ids, so an
  \<^verbatim>\<open>author_id\<close> of \<^verbatim>\<open>None\<close> finds nothing.\<close>

definition users_get :: "(int \<rightharpoonup> user) \<Rightarrow> int option \<Rightarrow> user option" where
  "users_get users aid = (case aid of None \<Rightarrow> None | Some a \<Rightarrow> users a)"

definition time_format :: string where
  "time_format = ''%Y-%m-%d %H:%M:%S''"

text \<open>Lines 104 to 119, the body of the loop. \<open>now\<close> is the clock: \<open>now k\<close> is what
  the \<open>k\<close>-th call of \<^verbatim>\<open>datetime.now()\<close> within this fetch returns, and the number of
  calls made so far is threaded through. A user object is true in Python.\<close>

definition process_tweet ::
  "(int \<rightharpoonup> user) \<Rightarrow> (nat \<Rightarrow> datetime) \<Rightarrow> nat \<Rightarrow> tweet \<Rightarrow> exn + processed_tweet \<times> nat" where
  "process_tweet users now k tweet =
     (let user = users_get users (author_id tweet);
          name = (case user of Some u \<Rightarrow> ''@'' @ u_username u | None \<Rightarrow> ''Unknown User'');
          stamp = (case created_at tweet of
                     Some d \<Rightarrow> (strftime d time_format, k)
                   | None \<Rightarrow> (strftime (now k) time_format, Suc k))
      in and_then (case user of
                     Some u \<Rightarrow>
                       get (getattr (u_public_metrics u) (PyDict Map.empty)) ''followers_count'' 0
                   | None \<Rightarrow> Inr 0)
           (\<lambda>followers.
              and_then (case public_metrics tweet of
                          Some v \<Rightarrow> get v ''retweet_count'' 0
                        | None \<Rightarrow> Inr 0)
                (\<lambda>retweets.
                   and_then (case public_metrics tweet of
                               Some v \<Rightarrow> get v ''like_count'' 0
                             | None \<Rightarrow> Inr 0)
                     (\<lambda>likes.
                        Inr (\<lparr> p_id = t_id tweet, username = name, p_text = t_text tweet,
                               timestamp = fst stamp, user_followers = followers,
                               retweet_count = retweets, like_count = likes \<rparr>,
                             snd stamp)))))"

text \<open>Lines 103 to 120: the loop appends one entry per tweet, in order; an exception in
  one tweet ends it.\<close>

fun process_tweets ::
  "(int \<rightharpoonup> user) \<Rightarrow> (nat \<Rightarrow> datetime) \<Rightarrow> nat \<Rightarrow> tweet list \<Rightarrow> processed_tweet list
     \<Rightarrow> exn + processed_tweet list" where
  "process_tweets users now k [] processed_tweets = Inr processed_tweets"
| "process_tweets users now k (tweet # rest) processed_tweets =
     (case process_tweet users now k tweet of
        Inl e \<Rightarrow> Inl e
      | Inr (processed, k') \<Rightarrow> process_tweets users now k' rest (processed_tweets @ [processed]))"

text \<open>Lines 80 to 91: the request that goes to the library.\<close>

definition recent_search_request :: "('c, 'a) twitter_stream_scheme \<Rightarrow> int \<Rightarrow> search_request" where
  "recent_search_request self count =
     \<lparr> query_arg = query self, max_results = count,
       tweet_fields = [''created_at'', ''public_metrics'', ''text''],
       user_fields = [''username'', ''name'', ''profile_image_url''],
       expansions = [''author_id''] \<rparr>"

text \<open>\<^verbatim>\<open>get_recent_tweets\<close>: what is returned, and the lines logged. \<open>search\<close> is the
  library's \<^verbatim>\<open>search_recent_tweets\<close> on the client: it returns a response or raises.\<close>

definition get_recent_tweets ::
  "('c \<Rightarrow> search_request \<Rightarrow> exn + response) \<Rightarrow> (nat \<Rightarrow> datetime) \<Rightarrow>
     ('c, 'a) twitter_stream_scheme \<Rightarrow> int \<Rightarrow> processed_tweet list \<times> log" where
  "get_recent_tweets search now self count =
     (case search (client self) (recent_search_request self count) of
        Inl e \<Rightarrow> ([], [(ERROR, ''Error fetching tweets: '' @ str e)])
      | Inr response \<Rightarrow>
          (case data response of
             None \<Rightarrow> ([], [(WARNING, ''No tweets found matching query: '' @ query self)])
           | Some [] \<Rightarrow> ([], [(WARNING, ''No tweets found matching query: '' @ query self)])
           | Some (tweet # rest) \<Rightarrow>
               (case process_tweets (users_of response) now 0 (tweet # rest) [] of
                  Inl e \<Rightarrow> ([], [(ERROR, ''Error fetching tweets: '' @ str e)])
                | Inr processed_tweets \<Rightarrow>
                    (processed_tweets,
                     [(INFO, ''Fetched '' @ str_nat (length processed_tweets) @
                               '' tweets with hashtag '' @ hashtag self)]))))"

section \<open>\<^verbatim>\<open>get_stream_sample\<close> (lines 129 to 137)\<close>

text \<open>The result is \<^verbatim>\<open>None\<close> or a tweet; \<^verbatim>\<open>tweets[0]\<close> is read only from a list
  that is not empty.\<close>

definition get_stream_sample ::
  "('c \<Rightarrow> search_request \<Rightarrow> exn + response) \<Rightarrow> (nat \<Rightarrow> datetime) \<Rightarrow>
     ('c, 'a) twitter_stream_scheme \<Rightarrow> processed_tweet option \<times> log" where
  "get_stream_sample search now self =
     (case get_recent_tweets search now self 5 of
        (tweets, lg) \<Rightarrow>
          (if tweets = [] then None
           else (case tweets of first # _ \<Rightarrow> Some first | [] \<Rightarrow> None),
           lg))"

section \<open>Notions the statements use\<close>

text \<open>The five variables, in the order in which lines 40 to 49 test them.\<close>

definition credential_names :: "string list" where
  "credential_names =
     [''TWITTER_BEARER_TOKEN'', ''TWITTER_API_KEY'', ''TWITTER_API_SECRET'',
      ''TWITTER_ACCESS_TOKEN'', ''TWITTER_ACCESS_TOKEN_SECRET'']"

text \<open>A credential is present when its variable is set to a string that is not empty.
  The environment holds a usable set of credentials when the bearer token is present, or
  the four OAuth 1.0a values all are.\<close>

definition credentials_ok :: "environ \<Rightarrow> bool" where
  "credentials_ok env =
     (truthy (env ''TWITTER_BEARER_TOKEN'') \<or>
      (truthy (env ''TWITTER_API_KEY'') \<and> truthy (env ''TWITTER_API_SECRET'') \<and>
       truthy (env ''TWITTER_ACCESS_TOKEN'') \<and> truthy (env ''TWITTER_ACCESS_TOKEN_SECRET'')))"

text \<open>The arguments with which \<^verbatim>\<open>_initialize_client\<close> calls the library.\<close>

definition chosen_args :: "'a credentials_scheme \<Rightarrow> client_args" where
  "chosen_args self =
     (if truthy (bearer_token self)
      then \<lparr> arg_bearer_token = bearer_token self, consumer_key = None, consumer_secret = None,
             arg_access_token = None, arg_access_token_secret = None \<rparr>
      else \<lparr> arg_bearer_token = None, consumer_key = api_key self,
             consumer_secret = api_secret self, arg_access_token = access_token self,
             arg_access_token_secret = access_token_secret self \<rparr>)"

text \<open>The author side-table of a response: the list under \<^verbatim>\<open>'users'\<close> of
  \<^verbatim>\<open>response.includes\<close>, empty when the response includes none.\<close>

definition side_table :: "response \<Rightarrow> user list" where
  "side_table response = (case includes' response ''users'' of Some us \<Rightarrow> us | None \<Rightarrow> [])"

text \<open>The entries of the side-table whose id is the \<^verbatim>\<open>author_id\<close> of a tweet. The
  dictionary of line 101 keeps the last of them.\<close>

definition authors_of :: "response \<Rightarrow> tweet \<Rightarrow> user list" where
  "authors_of response t = filter (\<lambda>u. Some (u_id u) = author_id t) (side_table response)"

text \<open>A \<^verbatim>\<open>public_metrics\<close> attribute that is missing or holds a mapping, that is, one
  that does not hold \<^verbatim>\<open>None\<close>.\<close>

definition holds_mapping :: "pyval option \<Rightarrow> bool" where
  "holds_mapping slot = (slot \<noteq> Some PyNone)"

definition count_of :: "(string \<rightharpoonup> int) \<Rightarrow> string \<Rightarrow> int" where
  "count_of m key = (case m key of None \<Rightarrow> 0 | Some v \<Rightarrow> v)"

text \<open>The tweets of a response whose metrics the loop can read: neither the tweet's
  \<^verbatim>\<open>public_metrics\<close> nor those of the author that the lookup finds hold \<^verbatim>\<open>None\<close>.\<close>

definition metrics_usable :: "response \<Rightarrow> tweet \<Rightarrow> bool" where
  "metrics_usable response t =
     (holds_mapping (public_metrics t) \<and>
      (case authors_of response t of
         [] \<Rightarrow> True
       | v # vs \<Rightarrow> holds_mapping (u_public_metrics (last (v # vs)))))"

text \<open>How often \<^verbatim>\<open>datetime.now()\<close> has been called when the loop reaches the tweet at
  index \<open>i\<close>: once for each earlier tweet without \<^verbatim>\<open>created_at\<close>.\<close>

definition clock_calls_before :: "tweet list \<Rightarrow> nat \<Rightarrow> nat" where
  "clock_calls_before ts i = length (filter (\<lambda>t. created_at t = None) (take i ts))"

subsection \<open>Sample values\<close>

definition sample_stream :: "string twitter_stream" where
  "sample_stream =
     \<lparr> bearer_token = Some ''tok'', api_key = None, api_secret = None, access_token = None,
       access_token_secret = None, client = ''c'', hashtag = ''#x'',
       query = ''#x -is:retweet'' \<rparr>"

definition sample_clock :: "nat \<Rightarrow> datetime" where
  "sample_clock k = \<lparr> year = 2025, month = 3, day = 9, hour = 7, minute = 5, second = k \<rparr>"

text \<open>A tweet with neither \<^verbatim>\<open>created_at\<close> nor a \<^verbatim>\<open>public_metrics\<close> attribute, whose
  author (id 42) is in no side-table below.\<close>

definition plain_tweet :: tweet where
  "plain_tweet =
     \<lparr> t_id = 1, t_text = ''hi'', created_at = None, author_id = Some 42,
       public_metrics = None \<rparr>"

definition tweet_by_bob :: tweet where
  "tweet_by_bob =
     \<lparr> t_id = 2, t_text = ''yo'',
       created_at = Some \<lparr> year = 2024, month = 12, day = 31, hour = 23, minute = 59,
                            second = 58 \<rparr>,
       author_id = Some 7, public_metrics = Some (PyDict [''like_count'' \<mapsto> 3]) \<rparr>"

text \<open>The author with id 7, once as an object without a \<^verbatim>\<open>public_metrics\<close>
  attribute and once with the attribute set to \<^verbatim>\<open>None\<close>.\<close>

definition bob :: user where
  "bob = \<lparr> u_id = 7, u_username = ''bob'', u_public_metrics = None \<rparr>"

definition bob_none_metrics :: user where
  "bob_none_metrics = \<lparr> u_id = 7, u_username = ''bob'', u_public_metrics = Some PyNone \<rparr>"

definition sample_response :: response where
  "sample_response =
     \<lparr> data = Some [plain_tweet, tweet_by_bob], includes' = [''users'' \<mapsto> [bob]] \<rparr>"

definition response_none_metrics :: response where
  "response_none_metrics =
     \<lparr> data = Some [tweet_by_bob], includes' = [''users'' \<mapsto> [bob_none_metrics]] \<rparr>"

definition response_no_posts :: response where
  "response_no_posts = \<lparr> data = Some [], includes' = Map.empty \<rparr>"

definition response_no_data :: response where
  "response_no_data = \<lparr> data = None, includes' = Map.empty \<rparr>"

text \<open>Posts as the library carries them, their metrics a mapping: one of an author (id 42)
  who is in no side-table, and one of the author with id 7 that has no
  \<^verbatim>\<open>created_at\<close>.\<close>

definition unmatched_tweet :: tweet where
  "unmatched_tweet =
     \<lparr> t_id = 4, t_text = ''who'',
       created_at = Some \<lparr> year = 2025, month = 1, day = 2, hour = 3, minute = 4,
                            second = 5 \<rparr>,
       author_id = Some 42,
       public_metrics = Some (PyDict [''retweet_count'' \<mapsto> 1, ''like_count'' \<mapsto> 2]) \<rparr>"

definition undated_tweet_by_bob :: tweet where
  "undated_tweet_by_bob =
     \<lparr> t_id = 3, t_text = ''now'', created_at = None, author_id = Some 7,
       public_metrics = Some (PyDict [''retweet_count'' \<mapsto> 1, ''like_count'' \<mapsto> 2]) \<rparr>"

text \<open>A post whose \<^verbatim>\<open>public_metrics\<close> attribute is \<^verbatim>\<open>None\<close>: the payload had no such
  field.\<close>

definition tweet_none_metrics :: tweet where
  "tweet_none_metrics =
     \<lparr> t_id = 5, t_text = ''bare'',
       created_at = Some \<lparr> year = 2025, month = 1, day = 2, hour = 3, minute = 4,
                            second = 5 \<rparr>,
       author_id = Some 42, public_metrics = Some PyNone \<rparr>"

definition mixed_response :: response where
  "mixed_response =
     \<lparr> data = Some [unmatched_tweet, tweet_by_bob],
       includes' = [''users'' \<mapsto> [bob_none_metrics]] \<rparr>"

definition undated_response :: response where
  "undated_response =
     \<lparr> data = Some [undated_tweet_by_bob], includes' = [''users'' \<mapsto> [bob_none_metrics]] \<rparr>"

definition response_tweet_none_metrics :: response where
  "response_tweet_none_metrics = \<lparr> data = Some [tweet_none_metrics], includes' = Map.empty \<rparr>"

text \<open>A search that answers requests for at most five results only.\<close>

definition search_for_five :: "string \<Rightarrow> search_request \<Rightarrow> exn + response" where
  "search_for_five c r =
     (if max_results r = 5 then Inr sample_response else Inl (LibraryError ''other count''))"

section \<open>Credential validation\<close>

lemma missing_filter:
  "missing (read_credentials env) = filter (\<lambda>n. \<not> truthy (env n)) credential_names"
  by (simp add: missing_def read_credentials_def credential_names_def)

lemma validate_eq:
  "validate_credentials (read_credentials env) =
     (if credentials_ok env then Inr ()
      else Inl (ValueError (missing_message (filter (\<lambda>n. \<not> truthy (env n)) credential_names))))"
  unfolding missing_filter [symmetric]
  by (simp add: validate_credentials_def credentials_ok_def read_credentials_def)

lemma initialize_client_result:
  "fst (initialize_client Client self) = Client (chosen_args self)"
  by (simp add: initialize_client_def chosen_args_def split: sum.splits)

lemma init_invalid:
  "\<not> credentials_ok env \<Longrightarrow>
   init env Client tag =
     (Inl (ValueError (missing_message (filter (\<lambda>n. \<not> truthy (env n)) credential_names))), [])"
  by (simp add: init_def validate_eq Let_def)

lemma init_valid:
  "credentials_ok env \<Longrightarrow>
   (\<exists>s. fst (init env Client tag) = Inr s) =
   (\<exists>c. Client (chosen_args (read_credentials env)) = Inr c)"
  using initialize_client_result [of Client "read_credentials env"]
  by (cases "initialize_client Client (read_credentials env)")
     (auto simp: init_def validate_eq Let_def split: sum.splits)

lemma join_sublist: "x \<in> set xs \<Longrightarrow> sublist x (join sep xs)"
proof (induction sep xs rule: join.induct)
  case (1 sep) then show ?case by simp
next
  case (2 sep y) then show ?case by simp
next
  case (3 sep a b ys)
  show ?case
  proof (cases "x = a")
    case True then show ?thesis by (simp add: sublist_append_rightI)
  next
    case False
    with 3 have "sublist x (join sep (b # ys))" by simp
    then obtain ps ss where "join sep (b # ys) = ps @ x @ ss"
      by (auto simp: sublist_def)
    then have "join sep (a # b # ys) = (a @ sep @ ps) @ x @ ss" by simp
    then show ?thesis unfolding sublist_def by blast
  qed
qed

lemma join_Cons: "\<exists>rest. join sep (x # xs) = x @ rest"
  by (cases xs) simp_all

lemma five_names:
  "credential_names = [''TWITTER_BEARER_TOKEN'', ''TWITTER_API_KEY'', ''TWITTER_API_SECRET'',
      ''TWITTER_ACCESS_TOKEN'', ''TWITTER_ACCESS_TOKEN_SECRET'']"
  by (simp add: credential_names_def)

lemma init_invalid_text:
  assumes "\<not> credentials_ok env"
  shows "init env Client tag =
     (Inl (ValueError
        (''Missing required Twitter API credentials. Need either TWITTER_BEARER_TOKEN or OAuth credentials: '' @
         join '', '' (filter (\<lambda>n. \<not> truthy (env n))
            [''TWITTER_BEARER_TOKEN'', ''TWITTER_API_KEY'', ''TWITTER_API_SECRET'',
             ''TWITTER_ACCESS_TOKEN'', ''TWITTER_ACCESS_TOKEN_SECRET'']))), [])"
  using init_invalid [OF assms, of Client tag]
  by (simp only: missing_message_def five_names)

lemma listed_names:
  "n \<in> set names \<Longrightarrow>
   (if truthy (env n)
    then n \<notin> set (filter (\<lambda>n. \<not> truthy (env n)) names)
    else sublist n (join sep (filter (\<lambda>n. \<not> truthy (env n)) names)))"
  by (auto intro: join_sublist)

text \<open>
  C3. For every assignment of the five variables, the credential check of construction
  passes if and only if the bearer token is present or all four OAuth 1.0a values are
  (present: set to a string that is not empty). When it passes, construction succeeds
  exactly when the library builds the client from the chosen arguments; so with a
  library constructor that always returns a client, construction succeeds if and only if
  the bearer token is present or all four OAuth 1.0a values are. When it does not
  pass, construction fails, before any client is built and with nothing logged, with a
  \<^verbatim>\<open>ValueError\<close> whose message is the opening sentence of line 51 followed by the
  names, joined by a comma and a space, of the variables among the five that are not
  present, whichever scheme they belong to: each variable that is not present is named in
  that part of the message, and no variable that is present is in the list.
\<close>

theorem construction_checks_credentials:
  "((validate_credentials (read_credentials env) = Inr ()) = credentials_ok env) \<and>
   (credentials_ok env \<longrightarrow>
      (\<exists>s. fst (init env Client tag) = Inr s) =
      (\<exists>c. Client (chosen_args (read_credentials env)) = Inr c)) \<and>
   ((\<forall>args. \<exists>c. Client args = Inr c) \<longrightarrow>
      (\<exists>s. fst (init env Client tag) = Inr s) = credentials_ok env) \<and>
   (\<not> credentials_ok env \<longrightarrow>
      init env Client tag =
        (Inl (ValueError
           (''Missing required Twitter API credentials. Need either TWITTER_BEARER_TOKEN or OAuth credentials: '' @
            join '', '' (filter (\<lambda>n. \<not> truthy (env n))
               [''TWITTER_BEARER_TOKEN'', ''TWITTER_API_KEY'', ''TWITTER_API_SECRET'',
                ''TWITTER_ACCESS_TOKEN'', ''TWITTER_ACCESS_TOKEN_SECRET'']))), []) \<and>
      (\<forall>n \<in> set [''TWITTER_BEARER_TOKEN'', ''TWITTER_API_KEY'', ''TWITTER_API_SECRET'',
                   ''TWITTER_ACCESS_TOKEN'', ''TWITTER_ACCESS_TOKEN_SECRET''].
         if truthy (env n)
         then n \<notin> set (filter (\<lambda>n. \<not> truthy (env n))
               [''TWITTER_BEARER_TOKEN'', ''TWITTER_API_KEY'', ''TWITTER_API_SECRET'',
                ''TWITTER_ACCESS_TOKEN'', ''TWITTER_ACCESS_TOKEN_SECRET''])
         else sublist n (join '', '' (filter (\<lambda>n. \<not> truthy (env n))
               [''TWITTER_BEARER_TOKEN'', ''TWITTER_API_KEY'', ''TWITTER_API_SECRET'',
                ''TWITTER_ACCESS_TOKEN'', ''TWITTER_ACCESS_TOKEN_SECRET'']))))"
proof -
  let ?names = "[''TWITTER_BEARER_TOKEN'', ''TWITTER_API_KEY'', ''TWITTER_API_SECRET'',
                ''TWITTER_ACCESS_TOKEN'', ''TWITTER_ACCESS_TOKEN_SECRET'']"
  have total: "(\<exists>s. fst (init env Client tag) = Inr s) = credentials_ok env"
    if "\<forall>args. \<exists>c. Client args = Inr c"
  proof (cases "credentials_ok env")
    case True
    with that show ?thesis using init_valid [of env Client tag] by simp
  next
    case False
    then show ?thesis using init_invalid [of env Client tag] by simp
  qed
  have listed: "\<forall>n \<in> set ?names. if truthy (env n)
         then n \<notin> set (filter (\<lambda>n. \<not> truthy (env n)) ?names)
         else sublist n (join '', '' (filter (\<lambda>n. \<not> truthy (env n)) ?names))"
    using listed_names [of _ ?names env "'', ''"] by blast
  have v: "(validate_credentials (read_credentials env) = Inr ()) = credentials_ok env"
    by (simp add: validate_eq)
  show ?thesis
    using v init_valid [of env Client tag] total init_invalid_text [of env Client tag] listed
    by blast
qed

theorem construction_checks_credentials_witness:
  "credentials_ok [''TWITTER_BEARER_TOKEN'' \<mapsto> ''tok''] \<and>
   (\<exists>s. fst (init [''TWITTER_BEARER_TOKEN'' \<mapsto> ''tok'']
                (Inr :: client_args \<Rightarrow> exn + client_args) ''#x'') = Inr s) \<and>
   \<not> credentials_ok [''TWITTER_API_KEY'' \<mapsto> ''k'', ''TWITTER_ACCESS_TOKEN'' \<mapsto> ''''] \<and>
   init [''TWITTER_API_KEY'' \<mapsto> ''k'', ''TWITTER_ACCESS_TOKEN'' \<mapsto> '''']
        (Inr :: client_args \<Rightarrow> exn + client_args) ''#x'' =
     (Inl (ValueError
        (''Missing required Twitter API credentials. Need either TWITTER_BEARER_TOKEN or OAuth credentials: '' @
         ''TWITTER_BEARER_TOKEN, TWITTER_API_SECRET, TWITTER_ACCESS_TOKEN, TWITTER_ACCESS_TOKEN_SECRET'')),
      [])"
proof -
  have ok: "credentials_ok [''TWITTER_BEARER_TOKEN'' \<mapsto> ''tok'']"
    and bad: "\<not> credentials_ok [''TWITTER_API_KEY'' \<mapsto> ''k'', ''TWITTER_ACCESS_TOKEN'' \<mapsto> '''']"
    by (simp_all add: credentials_ok_def)
  have total: "\<forall>args. \<exists>c. (Inr :: client_args \<Rightarrow> exn + client_args) args = Inr c"
    by simp
  from construction_checks_credentials
          [of "[''TWITTER_BEARER_TOKEN'' \<mapsto> ''tok'']"
              "Inr :: client_args \<Rightarrow> exn + client_args" "''#x''"] ok total
  have s: "\<exists>s. fst (init [''TWITTER_BEARER_TOKEN'' \<mapsto> ''tok'']
                (Inr :: client_args \<Rightarrow> exn + client_args) ''#x'') = Inr s"
    by blast
  from construction_checks_credentials
          [of "[''TWITTER_API_KEY'' \<mapsto> ''k'', ''TWITTER_ACCESS_TOKEN'' \<mapsto> '''']"
              "Inr :: client_args \<Rightarrow> exn + client_args" "''#x''"] bad
  have "init [''TWITTER_API_KEY'' \<mapsto> ''k'', ''TWITTER_ACCESS_TOKEN'' \<mapsto> '''']
        (Inr :: client_args \<Rightarrow> exn + client_args) ''#x'' =
        (Inl (ValueError
           (''Missing required Twitter API credentials. Need either TWITTER_BEARER_TOKEN or OAuth credentials: '' @
            join '', '' (filter (\<lambda>n. \<not> truthy ([''TWITTER_API_KEY'' \<mapsto> ''k'', ''TWITTER_ACCESS_TOKEN'' \<mapsto> ''''] n))
               [''TWITTER_BEARER_TOKEN'', ''TWITTER_API_KEY'', ''TWITTER_API_SECRET'',
                ''TWITTER_ACCESS_TOKEN'', ''TWITTER_ACCESS_TOKEN_SECRET'']))), [])"
    by blast
  then have f: "init [''TWITTER_API_KEY'' \<mapsto> ''k'', ''TWITTER_ACCESS_TOKEN'' \<mapsto> '''']
        (Inr :: client_args \<Rightarrow> exn + client_args) ''#x'' =
     (Inl (ValueError
        (''Missing required Twitter API credentials. Need either TWITTER_BEARER_TOKEN or OAuth credentials: '' @
         ''TWITTER_BEARER_TOKEN, TWITTER_API_SECRET, TWITTER_ACCESS_TOKEN, TWITTER_ACCESS_TOKEN_SECRET'')),
      [])"
    by simp
  show ?thesis using ok bad s f by blast
qed

lemma validate_cong:
  assumes "\<And>m. truthy (env m) = truthy (env' m)"
  shows "validate_credentials (read_credentials env) = validate_credentials (read_credentials env')"
proof -
  have "credentials_ok env = credentials_ok env'"
    by (simp add: credentials_ok_def assms)
  moreover have "filter (\<lambda>n. \<not> truthy (env n)) credential_names =
                 filter (\<lambda>n. \<not> truthy (env' n)) credential_names"
    by (simp add: assms)
  ultimately show ?thesis by (simp add: validate_eq)
qed

text \<open>
  C9. Validation tests the truth value of a credential, not whether its variable is set.
  For every environment in which one of the five variables is set to the empty string,
  validation returns what it returns with that variable unset, and the variable counts
  among the missing ones. When validation fails, construction fails as it does with the
  variable unset, and the text of the error is the opening sentence of line 51 followed by
  the joined missing names, in which the name of the variable occurs. In particular an
  empty bearer token with an incomplete OAuth 1.0a set fails.
\<close>

theorem empty_credential_counts_as_missing:
  assumes "n \<in> set [''TWITTER_BEARER_TOKEN'', ''TWITTER_API_KEY'', ''TWITTER_API_SECRET'',
                      ''TWITTER_ACCESS_TOKEN'', ''TWITTER_ACCESS_TOKEN_SECRET'']"
    and "env n = Some []"
  shows "validate_credentials (read_credentials env) =
           validate_credentials (read_credentials (env(n := None))) \<and>
         n \<in> set (missing (read_credentials env)) \<and>
         (\<not> credentials_ok env \<longrightarrow>
            init env Client tag = init (env(n := None)) Client tag \<and>
            (\<exists>names. init env Client tag =
               (Inl (ValueError
                  (''Missing required Twitter API credentials. Need either TWITTER_BEARER_TOKEN or OAuth credentials: '' @
                   names)), []) \<and>
               names = join '', '' (missing (read_credentials env)) \<and>
               sublist n names)) \<and>
         (n = ''TWITTER_BEARER_TOKEN'' \<and>
          \<not> (truthy (env ''TWITTER_API_KEY'') \<and> truthy (env ''TWITTER_API_SECRET'') \<and>
             truthy (env ''TWITTER_ACCESS_TOKEN'') \<and> truthy (env ''TWITTER_ACCESS_TOKEN_SECRET''))
          \<longrightarrow> \<not> credentials_ok env)"
proof -
  have n: "n \<in> set credential_names" using assms(1) by (simp only: five_names)
  have ut: "\<And>m. truthy ((env(n := None)) m) = truthy (env m)"
    using assms(2) by simp
  have same: "validate_credentials (read_credentials env) =
           validate_credentials (read_credentials (env(n := None)))"
    using validate_cong [of env "env(n := None)"] ut by simp
  have mem: "n \<in> set (missing (read_credentials env))"
    using n assms(2) by (simp add: missing_filter)
  have ok_same: "credentials_ok (env(n := None)) = credentials_ok env"
    using ut by (simp add: credentials_ok_def)
  have flt: "filter (\<lambda>m. \<not> truthy ((env(n := None)) m)) credential_names =
             filter (\<lambda>m. \<not> truthy (env m)) credential_names"
    using ut by simp
  have fail: "init env Client tag = init (env(n := None)) Client tag \<and>
            (\<exists>names. init env Client tag =
               (Inl (ValueError
                  (''Missing required Twitter API credentials. Need either TWITTER_BEARER_TOKEN or OAuth credentials: '' @
                   names)), []) \<and>
               names = join '', '' (missing (read_credentials env)) \<and>
               sublist n names)" if "\<not> credentials_ok env"
  proof -
    have a: "init env Client tag =
            (Inl (ValueError
                  (''Missing required Twitter API credentials. Need either TWITTER_BEARER_TOKEN or OAuth credentials: '' @
                   join '', '' (missing (read_credentials env)))), [])"
      using init_invalid [OF that, of Client tag]
      by (simp only: missing_filter missing_message_def)
    have "init (env(n := None)) Client tag =
            (Inl (ValueError (missing_message (missing (read_credentials env)))), [])"
      using init_invalid [of "env(n := None)" Client tag] that ok_same flt
      by (simp add: missing_filter)
    then have b: "init (env(n := None)) Client tag = init env Client tag"
      using a by (simp only: missing_message_def)
    show ?thesis using a b join_sublist [OF mem, of "'', ''"] by simp
  qed
  have bearer: "\<not> credentials_ok env" if "n = ''TWITTER_BEARER_TOKEN''"
     "\<not> (truthy (env ''TWITTER_API_KEY'') \<and> truthy (env ''TWITTER_API_SECRET'') \<and>
             truthy (env ''TWITTER_ACCESS_TOKEN'') \<and> truthy (env ''TWITTER_ACCESS_TOKEN_SECRET''))"
    using that assms(2) by (auto simp: credentials_ok_def)
  show ?thesis using same mem fail bearer by blast
qed

theorem empty_credential_counts_as_missing_witness:
  "[''TWITTER_BEARER_TOKEN'' \<mapsto> '''', ''TWITTER_API_KEY'' \<mapsto> ''k''] ''TWITTER_BEARER_TOKEN'' = Some [] \<and>
   \<not> credentials_ok [''TWITTER_BEARER_TOKEN'' \<mapsto> '''', ''TWITTER_API_KEY'' \<mapsto> ''k''] \<and>
   init [''TWITTER_BEARER_TOKEN'' \<mapsto> '''', ''TWITTER_API_KEY'' \<mapsto> ''k'']
        (Inr :: client_args \<Rightarrow> exn + client_args) ''#x'' =
     init ([''TWITTER_BEARER_TOKEN'' \<mapsto> '''', ''TWITTER_API_KEY'' \<mapsto> ''k''](''TWITTER_BEARER_TOKEN'' := None))
        Inr ''#x'' \<and>
   init [''TWITTER_BEARER_TOKEN'' \<mapsto> '''', ''TWITTER_API_KEY'' \<mapsto> ''k'']
        (Inr :: client_args \<Rightarrow> exn + client_args) ''#x'' =
     (Inl (ValueError
        (''Missing required Twitter API credentials. Need either TWITTER_BEARER_TOKEN or OAuth credentials: '' @
         ''TWITTER_BEARER_TOKEN, TWITTER_API_SECRET, TWITTER_ACCESS_TOKEN, TWITTER_ACCESS_TOKEN_SECRET'')),
      []) \<and>
   ''TWITTER_BEARER_TOKEN'' \<in> set (missing (read_credentials [''TWITTER_BEARER_TOKEN'' \<mapsto> '''', ''TWITTER_API_KEY'' \<mapsto> ''k'']))"
proof -
  have bad: "\<not> credentials_ok [''TWITTER_BEARER_TOKEN'' \<mapsto> '''', ''TWITTER_API_KEY'' \<mapsto> ''k'']"
    by (simp add: credentials_ok_def)
  have m: "missing (read_credentials [''TWITTER_BEARER_TOKEN'' \<mapsto> '''', ''TWITTER_API_KEY'' \<mapsto> ''k'']) =
     [''TWITTER_BEARER_TOKEN'', ''TWITTER_API_SECRET'', ''TWITTER_ACCESS_TOKEN'',
      ''TWITTER_ACCESS_TOKEN_SECRET'']"
    by (simp add: missing_def read_credentials_def)
  have e: "[''TWITTER_BEARER_TOKEN'' \<mapsto> '''', ''TWITTER_API_KEY'' \<mapsto> ''k''] ''TWITTER_BEARER_TOKEN'' = Some []"
    by simp
  have i: "''TWITTER_BEARER_TOKEN'' \<in> set [''TWITTER_BEARER_TOKEN'', ''TWITTER_API_KEY'', ''TWITTER_API_SECRET'',
                      ''TWITTER_ACCESS_TOKEN'', ''TWITTER_ACCESS_TOKEN_SECRET'']"
    by simp
  note t = empty_credential_counts_as_missing
          [of "''TWITTER_BEARER_TOKEN''"
              "[''TWITTER_BEARER_TOKEN'' \<mapsto> '''', ''TWITTER_API_KEY'' \<mapsto> ''k'']"
              "Inr :: client_args \<Rightarrow> exn + client_args" "''#x''"]
  show ?thesis using t i bad e unfolding m by auto
qed

text \<open>
  C10. Whenever validation raises the missing-credentials error, construction fails with
  that error and nothing logged, the bearer token is not present, and
  \<^verbatim>\<open>TWITTER_BEARER_TOKEN\<close> is in the list of missing names: it is the first name of
  the list, so the message is the fixed opening sentence followed by that name.
\<close>

theorem missing_credentials_error_names_bearer_token:
  assumes "validate_credentials (read_credentials env) = Inl e"
  shows "init env Client tag = (Inl e, []) \<and>
         e = ValueError (missing_message (missing (read_credentials env))) \<and>
         \<not> truthy (env ''TWITTER_BEARER_TOKEN'') \<and>
         ''TWITTER_BEARER_TOKEN'' \<in> set (missing (read_credentials env)) \<and>
         (\<exists>others. missing (read_credentials env) = ''TWITTER_BEARER_TOKEN'' # others) \<and>
         (\<exists>rest. str e = missing_message [] @ ''TWITTER_BEARER_TOKEN'' @ rest)"
proof -
  from assms have bad: "\<not> credentials_ok env"
    by (auto simp: validate_eq split: if_splits)
  then have nb: "\<not> truthy (env ''TWITTER_BEARER_TOKEN'')"
    by (simp add: credentials_ok_def)
  from assms bad have e: "e = ValueError (missing_message (missing (read_credentials env)))"
    by (simp add: validate_eq missing_filter)
  have i: "init env Client tag = (Inl e, [])"
    using init_invalid [OF bad] e by (simp add: missing_filter)
  obtain others where hd: "missing (read_credentials env) = ''TWITTER_BEARER_TOKEN'' # others"
    using nb by (simp add: missing_def read_credentials_def)
  obtain rest where "join '', '' (''TWITTER_BEARER_TOKEN'' # others) = ''TWITTER_BEARER_TOKEN'' @ rest"
    using join_Cons by blast
  then have "str e = missing_message [] @ ''TWITTER_BEARER_TOKEN'' @ rest"
    using e hd by (simp add: missing_message_def)
  then show ?thesis using i e nb hd by auto
qed

theorem missing_credentials_error_names_bearer_token_witness:
  "validate_credentials (read_credentials [''TWITTER_API_KEY'' \<mapsto> ''k'']) =
     Inl (ValueError (''Missing required Twitter API credentials. Need either TWITTER_BEARER_TOKEN or OAuth credentials: '' @
         ''TWITTER_BEARER_TOKEN, TWITTER_API_SECRET, TWITTER_ACCESS_TOKEN, TWITTER_ACCESS_TOKEN_SECRET'')) \<and>
   ''TWITTER_BEARER_TOKEN'' \<in> set (missing (read_credentials [''TWITTER_API_KEY'' \<mapsto> ''k''])) \<and>
   init [''TWITTER_API_KEY'' \<mapsto> ''k''] (Inr :: client_args \<Rightarrow> exn + client_args) ''#x'' =
     (Inl (ValueError (''Missing required Twitter API credentials. Need either TWITTER_BEARER_TOKEN or OAuth credentials: '' @
         ''TWITTER_BEARER_TOKEN, TWITTER_API_SECRET, TWITTER_ACCESS_TOKEN, TWITTER_ACCESS_TOKEN_SECRET'')), [])"
proof -
  have v: "validate_credentials (read_credentials [''TWITTER_API_KEY'' \<mapsto> ''k'']) =
     Inl (ValueError (''Missing required Twitter API credentials. Need either TWITTER_BEARER_TOKEN or OAuth credentials: '' @
         ''TWITTER_BEARER_TOKEN, TWITTER_API_SECRET, TWITTER_ACCESS_TOKEN, TWITTER_ACCESS_TOKEN_SECRET''))"
    by (simp add: validate_credentials_def read_credentials_def missing_def missing_message_def)
  show ?thesis
    using v missing_credentials_error_names_bearer_token
              [OF v, of "Inr :: client_args \<Rightarrow> exn + client_args" "''#x''"]
    by simp
qed

section \<open>Normalisation of a response\<close>

lemma foldl_users_lookup:
  "foldl (\<lambda>m u. m(u_id u \<mapsto> u)) m0 us a =
     (case filter (\<lambda>u. u_id u = a) us of [] \<Rightarrow> m0 a | v # vs \<Rightarrow> Some (last (v # vs)))"
proof (induction us rule: rev_induct)
  case Nil
  then show ?case by simp
next
  case (snoc x xs)
  then show ?case by (auto split: list.splits)
qed

lemma users_get_authors:
  "users_get (users_of response) (author_id t) =
     (case authors_of response t of [] \<Rightarrow> None | v # vs \<Rightarrow> Some (last (v # vs)))"
proof (cases "author_id t")
  case None
  then show ?thesis by (simp add: users_get_def authors_of_def)
next
  case (Some a)
  have eq: "(\<lambda>u. Some (u_id u) = Some a) = (\<lambda>u. u_id u = a)" by auto
  show ?thesis
    using Some
    by (simp add: users_get_def authors_of_def side_table_def users_of_def eq
                  foldl_users_lookup
             split: option.splits)
qed

lemma get_Inl_iff: "(get v key d = Inl e) = (v = PyNone \<and> e = AttributeError none_has_no_get)"
  by (cases v) auto

lemma get_Inr_iff:
  "(get v key d = Inr x) =
     (\<exists>m. v = PyDict m \<and> x = (case m key of None \<Rightarrow> d | Some w \<Rightarrow> w))"
  by (cases v) auto

lemma process_tweet_Inl:
  "process_tweet users now k t = Inl e \<Longrightarrow> e = AttributeError none_has_no_get"
  by (auto simp: process_tweet_def and_then_def Let_def getattr_def get_Inl_iff
           split: option.splits sum.splits)

lemma process_tweet_raises_iff:
  "(\<exists>e. process_tweet users now k t = Inl e) =
     (\<not> holds_mapping (public_metrics t) \<or>
      (\<exists>u. users_get users (author_id t) = Some u \<and> \<not> holds_mapping (u_public_metrics u)))"
  by (auto simp: process_tweet_def and_then_def Let_def getattr_def holds_mapping_def
                 get_Inl_iff get_Inr_iff
           split: option.splits sum.splits)

lemma process_tweet_Inr:
  assumes "process_tweet users now k t = Inr (p, k')"
  shows "p_id p = t_id t" and "p_text p = t_text t"
    and "username p = (case users_get users (author_id t) of
                         None \<Rightarrow> ''Unknown User'' | Some u \<Rightarrow> ''@'' @ u_username u)"
    and "timestamp p = (case created_at t of
                          None \<Rightarrow> strftime (now k) time_format
                        | Some d \<Rightarrow> strftime d time_format)"
    and "user_followers p = (case users_get users (author_id t) of
                               None \<Rightarrow> 0
                             | Some u \<Rightarrow> (case u_public_metrics u of
                                            Some (PyDict m) \<Rightarrow> count_of m ''followers_count''
                                          | _ \<Rightarrow> 0))"
    and "retweet_count p = (case public_metrics t of
                              Some (PyDict m) \<Rightarrow> count_of m ''retweet_count'' | _ \<Rightarrow> 0)"
    and "like_count p = (case public_metrics t of
                           Some (PyDict m) \<Rightarrow> count_of m ''like_count'' | _ \<Rightarrow> 0)"
    and "k' = (if created_at t = None then Suc k else k)"
  using assms
  by (auto simp: process_tweet_def and_then_def Let_def getattr_def count_of_def
                 get_Inl_iff get_Inr_iff
           split: option.splits sum.splits)

lemma process_tweets_Inl:
  "process_tweets users now k ts acc = Inl e \<Longrightarrow> e = AttributeError none_has_no_get"
  by (induction ts arbitrary: k acc) (auto split: sum.splits dest: process_tweet_Inl)

lemma process_tweets_Inr:
  "process_tweets users now k ts acc = Inr out \<Longrightarrow>
   length out = length acc + length ts \<and> take (length acc) out = acc \<and>
   (\<forall>i < length ts. \<exists>k'. process_tweet users now (k + clock_calls_before ts i) (ts ! i) =
        Inr (out ! (length acc + i), k'))"
proof (induction ts arbitrary: k acc)
  case Nil
  then show ?case by simp
next
  case (Cons t ts)
  from Cons.prems obtain p k1 where
    step: "process_tweet users now k t = Inr (p, k1)" and
    rest: "process_tweets users now k1 ts (acc @ [p]) = Inr out"
    by (auto split: sum.splits)
  from Cons.IH [OF rest] have
    len: "length out = length (acc @ [p]) + length ts" and
    tk: "take (length (acc @ [p])) out = acc @ [p]" and
    ih: "\<forall>i < length ts. \<exists>k'. process_tweet users now (k1 + clock_calls_before ts i) (ts ! i) =
            Inr (out ! (length (acc @ [p]) + i), k')"
    by auto
  have k1: "k1 = (if created_at t = None then Suc k else k)"
    using process_tweet_Inr(8) [OF step] .
  have "take (length acc) (take (length (acc @ [p])) out) = take (length acc) (acc @ [p])"
    using tk by simp
  then have tk': "take (length acc) out = acc"
    by (simp add: min_def)
  have "take (length (acc @ [p])) out ! length acc = (acc @ [p]) ! length acc"
    using tk by simp
  then have nth_acc: "out ! length acc = p"
    by simp
  have "\<exists>k'. process_tweet users now (k + clock_calls_before (t # ts) i) ((t # ts) ! i) =
          Inr (out ! (length acc + i), k')" if "i < length (t # ts)" for i
  proof (cases i)
    case 0
    then show ?thesis using step nth_acc by (simp add: clock_calls_before_def)
  next
    case (Suc j)
    with that have "j < length ts" by simp
    with ih obtain k' where
      "process_tweet users now (k1 + clock_calls_before ts j) (ts ! j) =
         Inr (out ! (length (acc @ [p]) + j), k')" by blast
    moreover have "k + clock_calls_before (t # ts) (Suc j) = k1 + clock_calls_before ts j"
      using k1 by (simp add: clock_calls_before_def)
    ultimately show ?thesis using Suc by simp
  qed
  then show ?case using len tk' by simp
qed

lemma process_tweet_raises_unusable:
  "(\<exists>e. process_tweet (users_of response) now k t = Inl e) = (\<not> metrics_usable response t)"
  unfolding process_tweet_raises_iff users_get_authors metrics_usable_def
  by (auto split: list.splits)

lemma process_tweets_succeeds_iff:
  "(\<exists>out. process_tweets (users_of response) now k ts acc = Inr out) =
     list_all (metrics_usable response) ts"
proof (induction ts arbitrary: k acc)
  case Nil
  then show ?case by simp
next
  case (Cons t ts)
  show ?case
  proof (cases "process_tweet (users_of response) now k t")
    case (Inl e)
    then have "\<not> metrics_usable response t"
      using process_tweet_raises_unusable [of response now k t] by auto
    with Inl show ?thesis by simp
  next
    case (Inr r)
    then have "metrics_usable response t"
      using process_tweet_raises_unusable [of response now k t] by auto
    with Inr Cons.IH show ?thesis by (cases r) simp
  qed
qed

section \<open>The fetch\<close>

lemma get_recent_tweets_some:
  assumes "search (client self) (recent_search_request self count) = Inr response"
    and "data response = Some ts" and "ts \<noteq> []"
  shows "get_recent_tweets search now self count =
     (case process_tweets (users_of response) now 0 ts [] of
        Inl e \<Rightarrow> ([], [(ERROR, ''Error fetching tweets: '' @ str e)])
      | Inr out \<Rightarrow>
          (out, [(INFO, ''Fetched '' @ str_nat (length out) @ '' tweets with hashtag '' @
                         hashtag self)]))"
  using assms by (cases ts) (simp_all add: get_recent_tweets_def)

lemma fetch_nonempty_iff:
  assumes "search (client self) (recent_search_request self count) = Inr response"
    and "data response = Some ts"
  shows "(fst (get_recent_tweets search now self count) \<noteq> []) =
           (ts \<noteq> [] \<and> list_all (metrics_usable response) ts)"
proof (cases "ts = []")
  case True
  with assms show ?thesis by (simp add: get_recent_tweets_def)
next
  case False
  show ?thesis
  proof (cases "process_tweets (users_of response) now 0 ts []")
    case (Inl e)
    then have "\<not> list_all (metrics_usable response) ts"
      using process_tweets_succeeds_iff [of response now 0 ts "[]"] by simp
    with Inl False show ?thesis
      using get_recent_tweets_some [of search self count response ts now] assms by simp
  next
    case (Inr out)
    then have ok: "list_all (metrics_usable response) ts"
      using process_tweets_succeeds_iff [of response now 0 ts "[]"] by auto
    from process_tweets_Inr [OF Inr] have "length out = length ts" by simp
    with False have "out \<noteq> []" by auto
    with Inr False ok show ?thesis
      using get_recent_tweets_some [of search self count response ts now] assms by simp
  qed
qed

lemma fetch_record_at:
  assumes "search (client self) (recent_search_request self count) = Inr response"
    and "data response = Some ts"
    and "fst (get_recent_tweets search now self count) \<noteq> []"
    and "i < length ts"
  shows "length (fst (get_recent_tweets search now self count)) = length ts"
    and "\<exists>k'. process_tweet (users_of response) now (clock_calls_before ts i) (ts ! i) =
            Inr (fst (get_recent_tweets search now self count) ! i, k')"
proof -
  from assms(4) have ne: "ts \<noteq> []" by auto
  have eq: "get_recent_tweets search now self count =
     (case process_tweets (users_of response) now 0 ts [] of
        Inl e \<Rightarrow> ([], [(ERROR, ''Error fetching tweets: '' @ str e)])
      | Inr out \<Rightarrow>
          (out, [(INFO, ''Fetched '' @ str_nat (length out) @ '' tweets with hashtag '' @
                         hashtag self)]))"
    using get_recent_tweets_some [of search self count response ts now] assms(1,2) ne by simp
  obtain out where out: "process_tweets (users_of response) now 0 ts [] = Inr out"
    using assms(3) eq by (cases "process_tweets (users_of response) now 0 ts []") auto
  then have fst_eq: "fst (get_recent_tweets search now self count) = out"
    using eq by simp
  from process_tweets_Inr [OF out] assms(4)
  show "length (fst (get_recent_tweets search now self count)) = length ts"
    and "\<exists>k'. process_tweet (users_of response) now (clock_calls_before ts i) (ts ! i) =
            Inr (fst (get_recent_tweets search now self count) ! i, k')"
    unfolding fst_eq by auto
qed

section \<open>Failures and empty results\<close>

lemmas sample_defs =
  sample_response_def response_none_metrics_def response_no_posts_def response_no_data_def
  plain_tweet_def tweet_by_bob_def bob_def bob_none_metrics_def
  sample_stream_def sample_clock_def

lemmas eval_defs = get_recent_tweets_def get_stream_sample_def recent_search_request_def
  process_tweet_def and_then_def users_of_def users_get_def getattr_def time_format_def
  directive_def zero_pad_def digit_char_def none_has_no_get_def Let_def str_nat.simps

lemmas more_sample_defs =
  unmatched_tweet_def undated_tweet_by_bob_def tweet_none_metrics_def mixed_response_def
  undated_response_def response_tweet_none_metrics_def

text \<open>
  C1. \<^verbatim>\<open>get_recent_tweets\<close> returns a list and never an exception: its result has no
  exceptional part. For every exception \<open>e\<close> (of those deriving from \<^verbatim>\<open>Exception\<close>, which
  the handler of line 125 catches) that the search request raises, and for every
  exception that the normalisation of a response raises, the operation returns the empty
  list, having logged the exception at error level.
\<close>

theorem get_recent_tweets_absorbs_exceptions:
  "(search (client self) (recent_search_request self count) = Inl e \<longrightarrow>
      get_recent_tweets search now self count =
        ([], [(ERROR, ''Error fetching tweets: '' @ str e)])) \<and>
   (search (client self) (recent_search_request self count) = Inr response \<and>
    data response = Some ts \<and>
    process_tweets (users_of response) now 0 ts [] = Inl e \<longrightarrow>
      get_recent_tweets search now self count =
        ([], [(ERROR, ''Error fetching tweets: '' @ str e)]))"
proof (intro conjI impI)
  assume "search (client self) (recent_search_request self count) = Inl e"
  then show "get_recent_tweets search now self count =
        ([], [(ERROR, ''Error fetching tweets: '' @ str e)])"
    by (simp add: get_recent_tweets_def)
next
  assume a: "search (client self) (recent_search_request self count) = Inr response \<and>
    data response = Some ts \<and>
    process_tweets (users_of response) now 0 ts [] = Inl e"
  then have "ts \<noteq> []" by auto
  then show "get_recent_tweets search now self count =
        ([], [(ERROR, ''Error fetching tweets: '' @ str e)])"
    using a get_recent_tweets_some [of search self count response ts now] by simp
qed

theorem get_recent_tweets_absorbs_exceptions_witness:
  "get_recent_tweets (\<lambda>c r. Inl (LibraryError ''timeout'')) sample_clock sample_stream 10 =
     ([], [(ERROR, ''Error fetching tweets: timeout'')]) \<and>
   process_tweets (users_of response_none_metrics) sample_clock 0 [tweet_by_bob] [] = Inl (AttributeError none_has_no_get) \<and>
   get_recent_tweets (\<lambda>c r. Inr response_none_metrics) sample_clock sample_stream 10 =
     ([], [(ERROR, ''Error fetching tweets: '' @ none_has_no_get)])"
proof -
  have p: "process_tweets (users_of response_none_metrics) sample_clock 0 [tweet_by_bob] [] = Inl (AttributeError none_has_no_get)"
    by (simp add: sample_defs eval_defs)
  have d: "data response_none_metrics = Some [tweet_by_bob]" by (simp add: response_none_metrics_def)
  show ?thesis
    using get_recent_tweets_absorbs_exceptions
            [of "\<lambda>c r. Inl (LibraryError ''timeout'')" sample_stream 10 "LibraryError ''timeout''" sample_clock]
          get_recent_tweets_absorbs_exceptions
            [of "\<lambda>c r. Inr response_none_metrics" sample_stream 10 "AttributeError none_has_no_get" sample_clock
                response_none_metrics "[tweet_by_bob]"]
          p d
    by simp
qed

text \<open>
  C6. For every response with no posts, whether \<^verbatim>\<open>response.data\<close> is \<^verbatim>\<open>None\<close> or the
  empty list, \<^verbatim>\<open>get_recent_tweets\<close> returns the empty list and logs exactly one line, a
  warning; nothing is logged at error level.
\<close>

theorem no_posts_is_a_warning:
  assumes "search (client self) (recent_search_request self count) = Inr response"
    and "data response = None \<or> data response = Some []"
  shows "get_recent_tweets search now self count =
           ([], [(WARNING, ''No tweets found matching query: '' @ query self)])"
  using assms by (auto simp: get_recent_tweets_def)

theorem no_posts_is_a_warning_witness:
  "get_recent_tweets (\<lambda>c r. Inr response_no_posts) sample_clock sample_stream 10 =
     ([], [(WARNING, ''No tweets found matching query: #x -is:retweet'')]) \<and>
   get_recent_tweets (\<lambda>c r. Inr response_no_data) sample_clock sample_stream 10 =
     ([], [(WARNING, ''No tweets found matching query: #x -is:retweet'')])"
  using no_posts_is_a_warning [of "\<lambda>c r. Inr response_no_posts" sample_stream 10 response_no_posts sample_clock]
        no_posts_is_a_warning [of "\<lambda>c r. Inr response_no_data" sample_stream 10 response_no_data sample_clock]
  by (simp add: response_no_posts_def response_no_data_def sample_stream_def)

text \<open>
  C7. \<^verbatim>\<open>get_stream_sample\<close> returns \<^verbatim>\<open>None\<close> when \<^verbatim>\<open>get_recent_tweets(count=5)\<close>
  returns the empty list and otherwise the first element of that list, and logs what that
  call logs. The count of the request is 5: the result depends on the search only through
  its answer to the request with \<^verbatim>\<open>max_results\<close> 5.
\<close>

theorem get_stream_sample_first_of_five:
  "get_stream_sample search now self =
     (case fst (get_recent_tweets search now self 5) of
        [] \<Rightarrow> None
      | first # _ \<Rightarrow> Some first,
      snd (get_recent_tweets search now self 5)) \<and>
   max_results (recent_search_request self 5) = 5 \<and>
   (search' (client self) (recent_search_request self 5) =
      search (client self) (recent_search_request self 5) \<longrightarrow>
    get_stream_sample search' now self = get_stream_sample search now self)"
  by (auto simp: get_stream_sample_def get_recent_tweets_def recent_search_request_def
           split: prod.splits list.splits)

theorem get_stream_sample_first_of_five_witness:
  "get_stream_sample search_for_five sample_clock sample_stream =
     (Some \<lparr> p_id = 1, username = ''Unknown User'', p_text = ''hi'',
             timestamp = ''2025-03-09 07:05:00'', user_followers = 0,
             retweet_count = 0, like_count = 0 \<rparr>,
      [(INFO, ''Fetched 2 tweets with hashtag #x'')]) \<and>
   get_stream_sample (\<lambda>c r. Inr sample_response) sample_clock sample_stream = get_stream_sample search_for_five sample_clock sample_stream \<and>
   get_stream_sample (\<lambda>c r. Inr response_no_posts) sample_clock sample_stream =
     (None, [(WARNING, ''No tweets found matching query: #x -is:retweet'')])"
proof -
  have g: "get_recent_tweets search_for_five sample_clock sample_stream 5 =
     ([\<lparr> p_id = 1, username = ''Unknown User'', p_text = ''hi'',
             timestamp = ''2025-03-09 07:05:00'', user_followers = 0,
             retweet_count = 0, like_count = 0 \<rparr>,
       \<lparr> p_id = 2, username = ''@bob'', p_text = ''yo'',
             timestamp = ''2024-12-31 23:59:58'', user_followers = 0,
             retweet_count = 0, like_count = 3 \<rparr>],
      [(INFO, ''Fetched 2 tweets with hashtag #x'')])"
    by (simp add: search_for_five_def sample_defs eval_defs)
  have e: "get_recent_tweets (\<lambda>c r. Inr response_no_posts) sample_clock sample_stream 5 =
     ([], [(WARNING, ''No tweets found matching query: #x -is:retweet'')])"
    by (simp add: sample_defs eval_defs)
  have s: "(\<lambda>c r. Inr sample_response) (client sample_stream) (recent_search_request sample_stream 5) =
           search_for_five (client sample_stream) (recent_search_request sample_stream 5)"
    by (simp add: search_for_five_def recent_search_request_def)
  show ?thesis
    using get_stream_sample_first_of_five [of search_for_five sample_clock sample_stream "\<lambda>c r. Inr sample_response"]
          get_stream_sample_first_of_five [of "\<lambda>c r. Inr response_no_posts" sample_clock sample_stream "\<lambda>c r. Inr response_no_posts"]
          g e s
    by simp
qed

section \<open>One record per post\<close>

text \<open>When the metrics of every post of a response can be read, the fetch returns as many
  records as the response has posts; when those of some post cannot, it returns none.\<close>

lemma one_record_per_post:
  assumes "search (client self) (recent_search_request self count) = Inr response"
    and "data response = Some ts"
  shows "length (fst (get_recent_tweets search now self count)) =
           (if list_all (metrics_usable response) ts then length ts else 0)"
proof (cases "fst (get_recent_tweets search now self count) = []")
  case True
  then show ?thesis
    using fetch_nonempty_iff [of search self count response ts now] assms by auto
next
  case False
  then have ok: "ts \<noteq> [] \<and> list_all (metrics_usable response) ts"
    using fetch_nonempty_iff [of search self count response ts now] assms by simp
  then have "0 < length ts" by simp
  then show ?thesis
    using fetch_record_at(1) [of search self count response ts now 0] assms False ok by simp
qed

text \<open>
  C2. A response with posts is to yield one record per post, missing metrics degrading
  to the default 0 without an exception. Here is a response with one post, whose own
  metrics are a mapping and whose author is in the side-table with \<^verbatim>\<open>public_metrics\<close>
  set to \<^verbatim>\<open>None\<close>: \<^verbatim>\<open>getattr(user, 'public_metrics', {})\<close> of line 116 finds the
  attribute and returns \<^verbatim>\<open>None\<close>, \<^verbatim>\<open>None.get\<close> raises, and the fetch returns no record
  and logs the error. With the attribute missing from the same author, the fetch returns
  the one record, with 0 followers.
\<close>

theorem none_valued_metrics_abort_the_fetch:
  "data response_none_metrics = Some [tweet_by_bob] \<and>
   authors_of response_none_metrics tweet_by_bob = [bob_none_metrics] \<and>
   u_public_metrics bob_none_metrics = Some PyNone \<and>
   get_recent_tweets (\<lambda>c r. Inr response_none_metrics) sample_clock sample_stream 10 =
     ([], [(ERROR, ''Error fetching tweets: '' @ none_has_no_get)]) \<and>
   get_recent_tweets
       (\<lambda>c r. Inr (response_none_metrics \<lparr> includes' := [''users'' \<mapsto> [bob]] \<rparr>))
       sample_clock sample_stream 10 =
     ([\<lparr> p_id = 2, username = ''@bob'', p_text = ''yo'', timestamp = ''2024-12-31 23:59:58'',
         user_followers = 0, retweet_count = 0, like_count = 3 \<rparr>],
      [(INFO, ''Fetched 1 tweets with hashtag #x'')])"
  by (simp add: sample_defs eval_defs authors_of_def side_table_def)

section \<open>The fields of a record\<close>

lemma authors_of_last:
  "authors_of response t \<noteq> [] \<Longrightarrow>
   last (authors_of response t) \<in> set (side_table response) \<and>
   Some (u_id (last (authors_of response t))) = author_id t"
proof -
  assume ne: "authors_of response t \<noteq> []"
  then have "last (authors_of response t) \<in> set (authors_of response t)" by simp
  then show ?thesis by (simp add: authors_of_def)
qed

text \<open>
  Whenever a fetch returns records, there is one per post, in order, and for every
  post: if no entry of the author side-table has the post's \<^verbatim>\<open>author_id\<close>, the record's
  \<^verbatim>\<open>username\<close> is \<^verbatim>\<open>Unknown User\<close> and its \<^verbatim>\<open>user_followers\<close> is 0; if some entry has
  it, \<^verbatim>\<open>username\<close> is \<^verbatim>\<open>@\<close> followed by the \<^verbatim>\<open>username\<close> of such an entry (the last one
  in the side-table, should several share the id).
\<close>

lemma author_fields_of_record:
  assumes "search (client self) (recent_search_request self count) = Inr response"
    and "data response = Some ts"
    and "fst (get_recent_tweets search now self count) \<noteq> []"
    and "i < length ts"
  shows "length (fst (get_recent_tweets search now self count)) = length ts \<and>
         (authors_of response (ts ! i) = [] \<longrightarrow>
            username (fst (get_recent_tweets search now self count) ! i) = ''Unknown User'' \<and>
            user_followers (fst (get_recent_tweets search now self count) ! i) = 0) \<and>
         (authors_of response (ts ! i) \<noteq> [] \<longrightarrow>
            username (fst (get_recent_tweets search now self count) ! i) =
              ''@'' @ u_username (last (authors_of response (ts ! i))) \<and>
            last (authors_of response (ts ! i)) \<in> set (side_table response) \<and>
            Some (u_id (last (authors_of response (ts ! i)))) = author_id (ts ! i))"
proof -
  obtain k' where pt:
    "process_tweet (users_of response) now (clock_calls_before ts i) (ts ! i) =
       Inr (fst (get_recent_tweets search now self count) ! i, k')"
    using fetch_record_at(2) [of search self count response ts now i] assms by blast
  have len: "length (fst (get_recent_tweets search now self count)) = length ts"
    using fetch_record_at(1) [of search self count response ts now i] assms by blast
  note u = process_tweet_Inr(3) [OF pt] and f = process_tweet_Inr(5) [OF pt]
  have none: "username (fst (get_recent_tweets search now self count) ! i) = ''Unknown User'' \<and>
            user_followers (fst (get_recent_tweets search now self count) ! i) = 0"
    if "authors_of response (ts ! i) = []"
    using u f that by (simp add: users_get_authors)
  have some: "username (fst (get_recent_tweets search now self count) ! i) =
              ''@'' @ u_username (last (authors_of response (ts ! i)))"
    if "authors_of response (ts ! i) \<noteq> []"
    using u that by (cases "authors_of response (ts ! i)") (simp_all add: users_get_authors)
  show ?thesis using len none some authors_of_last [of response "ts ! i"] by blast
qed

text \<open>
  C4. A post whose \<^verbatim>\<open>author_id\<close> matches no entry of the side-table is to give a record
  with \<^verbatim>\<open>username\<close> \<^verbatim>\<open>Unknown User\<close> and \<^verbatim>\<open>user_followers\<close> 0, a post with a matching
  author a record with \<^verbatim>\<open>username\<close> \<^verbatim>\<open>@handle\<close>. Here is a response with one post of
  each kind, the matching author as the library carries it, \<^verbatim>\<open>public_metrics\<close> set to
  \<^verbatim>\<open>None\<close>: line 116 raises on the second post, and the fetch returns no record for
  either. With the attribute missing from the author, the same response gives the two
  records.
\<close>

theorem none_valued_metrics_leave_no_username:
  "authors_of mixed_response unmatched_tweet = [] \<and>
   authors_of mixed_response tweet_by_bob = [bob_none_metrics] \<and>
   u_public_metrics bob_none_metrics = Some PyNone \<and>
   get_recent_tweets (\<lambda>c r. Inr mixed_response) sample_clock sample_stream 10 =
     ([], [(ERROR, ''Error fetching tweets: '' @ none_has_no_get)]) \<and>
   get_recent_tweets
       (\<lambda>c r. Inr (mixed_response \<lparr> includes' := [''users'' \<mapsto> [bob]] \<rparr>))
       sample_clock sample_stream 10 =
     ([\<lparr> p_id = 4, username = ''Unknown User'', p_text = ''who'',
         timestamp = ''2025-01-02 03:04:05'', user_followers = 0, retweet_count = 1,
         like_count = 2 \<rparr>,
       \<lparr> p_id = 2, username = ''@bob'', p_text = ''yo'', timestamp = ''2024-12-31 23:59:58'',
         user_followers = 0, retweet_count = 0, like_count = 3 \<rparr>],
      [(INFO, ''Fetched 2 tweets with hashtag #x'')])"
  by (simp add: sample_defs more_sample_defs eval_defs authors_of_def side_table_def)

text \<open>
  Whenever a fetch returns records, for every post: if the post has no
  \<^verbatim>\<open>public_metrics\<close> attribute, the record's \<^verbatim>\<open>retweet_count\<close> and \<^verbatim>\<open>like_count\<close> are
  both 0; if the attribute holds a mapping, the record takes each count from the mapping,
  0 for a key that the mapping lacks. (A post whose attribute holds \<^verbatim>\<open>None\<close> is in no
  fetch that returns records.)
\<close>

lemma metric_counts_of_record:
  assumes "search (client self) (recent_search_request self count) = Inr response"
    and "data response = Some ts"
    and "fst (get_recent_tweets search now self count) \<noteq> []"
    and "i < length ts"
  shows "(public_metrics (ts ! i) = None \<longrightarrow>
            retweet_count (fst (get_recent_tweets search now self count) ! i) = 0 \<and>
            like_count (fst (get_recent_tweets search now self count) ! i) = 0) \<and>
         (public_metrics (ts ! i) = Some (PyDict m) \<longrightarrow>
            retweet_count (fst (get_recent_tweets search now self count) ! i) =
              (case m ''retweet_count'' of None \<Rightarrow> 0 | Some v \<Rightarrow> v) \<and>
            like_count (fst (get_recent_tweets search now self count) ! i) =
              (case m ''like_count'' of None \<Rightarrow> 0 | Some v \<Rightarrow> v)) \<and>
         public_metrics (ts ! i) \<noteq> Some PyNone"
proof -
  obtain k' where pt:
    "process_tweet (users_of response) now (clock_calls_before ts i) (ts ! i) =
       Inr (fst (get_recent_tweets search now self count) ! i, k')"
    using fetch_record_at(2) [of search self count response ts now i] assms by blast
  note r = process_tweet_Inr(6) [OF pt] and l = process_tweet_Inr(7) [OF pt]
  have "\<not> (\<exists>e. process_tweet (users_of response) now (clock_calls_before ts i) (ts ! i) = Inl e)"
    using pt by simp
  then have "holds_mapping (public_metrics (ts ! i))"
    unfolding process_tweet_raises_iff by blast
  then have "public_metrics (ts ! i) \<noteq> Some PyNone"
    by (simp add: holds_mapping_def)
  then show ?thesis using r l by (simp add: count_of_def)
qed

text \<open>
  C5. A post that lacks \<^verbatim>\<open>public_metrics\<close> is to give a record with
  \<^verbatim>\<open>retweet_count\<close> 0 and \<^verbatim>\<open>like_count\<close> 0. Here is a response with one such post as the
  library carries it, the attribute set to \<^verbatim>\<open>None\<close>: \<^verbatim>\<open>hasattr\<close> of line 117 is
  true, \<^verbatim>\<open>None.get\<close> raises, and the fetch returns no record. With the attribute missing
  from the post, the same response gives the record with both counts 0.
\<close>

theorem none_valued_metrics_leave_no_counts:
  "public_metrics tweet_none_metrics = Some PyNone \<and>
   authors_of response_tweet_none_metrics tweet_none_metrics = [] \<and>
   get_recent_tweets (\<lambda>c r. Inr response_tweet_none_metrics) sample_clock sample_stream 10 =
     ([], [(ERROR, ''Error fetching tweets: '' @ none_has_no_get)]) \<and>
   get_recent_tweets
       (\<lambda>c r. Inr \<lparr> data = Some [tweet_none_metrics \<lparr> public_metrics := None \<rparr>],
                       includes' = Map.empty \<rparr>)
       sample_clock sample_stream 10 =
     ([\<lparr> p_id = 5, username = ''Unknown User'', p_text = ''bare'',
         timestamp = ''2025-01-02 03:04:05'', user_followers = 0, retweet_count = 0,
         like_count = 0 \<rparr>],
      [(INFO, ''Fetched 1 tweets with hashtag #x'')])"
  by (simp add: sample_defs more_sample_defs eval_defs authors_of_def side_table_def)

section \<open>The timestamp\<close>

lemma is_digit_digit_char: "d < 10 \<Longrightarrow> is_digit (digit_char d)"
proof -
  assume "d < 10"
  then have "d < length ''0123456789''" by simp
  then have "''0123456789'' ! d \<in> set ''0123456789''" by (rule nth_mem)
  then show ?thesis by (simp only: is_digit_def digit_char_def)
qed

lemma str_nat_digits: "list_all is_digit (str_nat n)"
proof (induction n rule: str_nat.induct)
  case (1 n)
  show ?case
  proof (cases "n < 10")
    case True
    then show ?thesis using is_digit_digit_char [of n] by (simp add: str_nat.simps [of n])
  next
    case False
    have "n mod 10 < 10" by simp
    then have "is_digit (digit_char (n mod 10))" by (rule is_digit_digit_char)
    with False 1 show ?thesis by (simp add: str_nat.simps [of n])
  qed
qed

lemma str_nat_length: "0 < k \<Longrightarrow> n < 10 ^ k \<Longrightarrow> length (str_nat n) \<le> k"
proof (induction k arbitrary: n)
  case 0
  then show ?case by simp
next
  case (Suc k)
  show ?case
  proof (cases "n < 10")
    case True
    then show ?thesis by (simp add: str_nat.simps [of n])
  next
    case False
    with Suc.prems have k: "0 < k" by (cases k) auto
    from Suc.prems have "n div 10 < 10 ^ k"
      by (simp add: less_mult_imp_div_less mult.commute)
    with Suc.IH k have "length (str_nat (n div 10)) \<le> k" by blast
    with False show ?thesis by (simp add: str_nat.simps [of n])
  qed
qed

lemma zero_pad_shape:
  assumes "0 < w" and "n < 10 ^ w"
  shows "length (zero_pad w n) = w" and "list_all is_digit (zero_pad w n)"
proof -
  have le: "length (str_nat n) \<le> w" using assms by (rule str_nat_length)
  then show "length (zero_pad w n) = w" by (simp add: zero_pad_def)
  have "is_digit (CHR ''0'')" by (simp add: is_digit_def)
  then show "list_all is_digit (zero_pad w n)"
    using str_nat_digits [of n] by (auto simp: zero_pad_def list_all_iff)
qed

lemma two_digits:
  assumes "n < 100"
  shows "\<exists>a b. zero_pad 2 n = [a, b] \<and> is_digit a \<and> is_digit b"
proof -
  have "length (zero_pad 2 n) = 2" and d: "list_all is_digit (zero_pad 2 n)"
    using zero_pad_shape [of 2 n] assms by simp_all
  then obtain a b where "zero_pad 2 n = [a, b]"
    by (auto simp: length_Suc_conv numeral_2_eq_2)
  with d show ?thesis by simp
qed

lemma str_nat_length_ge: "10 ^ k \<le> n \<Longrightarrow> k < length (str_nat n)"
proof (induction k arbitrary: n)
  case 0
  show ?case by (simp add: str_nat.simps [of n])
next
  case (Suc k)
  have ten: "(10::nat) \<le> 10 * 10 ^ k" by simp
  have "10 * 10 ^ k \<le> n" using Suc.prems by simp
  with ten have "10 \<le> n" by (rule le_trans)
  then have big: "\<not> n < 10" by simp
  have "10 ^ k * 10 div 10 \<le> n div 10"
    using Suc.prems by (intro div_le_mono) (simp add: mult.commute)
  then have "10 ^ k \<le> n div 10" by simp
  then have "k < length (str_nat (n div 10))" by (rule Suc.IH)
  with big show ?case by (simp add: str_nat.simps [of n])
qed

lemma four_digits:
  assumes "1000 \<le> n" and "n < 10000"
  shows "\<exists>a b c d. str_nat n = [a, b, c, d] \<and> is_digit a \<and> is_digit b \<and> is_digit c \<and> is_digit d"
proof -
  have "length (str_nat n) \<le> 4"
    using str_nat_length [of 4 n] assms(2) by simp
  moreover have "3 < length (str_nat n)"
    using str_nat_length_ge [of 3 n] assms(1) by simp
  ultimately have "length (str_nat n) = Suc (Suc (Suc (Suc 0)))" by simp
  then obtain a b c e where "str_nat n = [a, b, c, e]"
    by (auto simp: length_Suc_conv)
  with str_nat_digits [of n] show ?thesis by simp
qed

lemma strftime_time_format:
  "strftime d time_format =
     str_nat (year d) @ ''-'' @ zero_pad 2 (month d) @ ''-'' @ zero_pad 2 (day d) @ '' '' @
     zero_pad 2 (hour d) @ '':'' @ zero_pad 2 (minute d) @ '':'' @ zero_pad 2 (second d)"
  by (simp add: time_format_def directive_def)

lemma strftime_matches_format:
  assumes "datetime_in_range d"
  shows "matches_format (strftime d time_format)" and "strftime d time_format \<noteq> []"
proof -
  from assms have b: "year d < 10000" "month d < 100" "day d < 100" "hour d < 100"
      "minute d < 100" "second d < 100" and lo: "1000 \<le> year d"
    by (simp_all add: datetime_in_range_def)
  obtain y1 y2 y3 y4 where y: "str_nat (year d) = [y1, y2, y3, y4]"
      "is_digit y1" "is_digit y2" "is_digit y3" "is_digit y4"
    using four_digits [OF lo b(1)] by blast
  obtain m1 m2 where m: "zero_pad 2 (month d) = [m1, m2]" "is_digit m1" "is_digit m2"
    using two_digits [OF b(2)] by blast
  obtain d1 d2 where dd: "zero_pad 2 (day d) = [d1, d2]" "is_digit d1" "is_digit d2"
    using two_digits [OF b(3)] by blast
  obtain h1 h2 where h: "zero_pad 2 (hour d) = [h1, h2]" "is_digit h1" "is_digit h2"
    using two_digits [OF b(4)] by blast
  obtain n1 n2 where n: "zero_pad 2 (minute d) = [n1, n2]" "is_digit n1" "is_digit n2"
    using two_digits [OF b(5)] by blast
  obtain s1 s2 where s: "zero_pad 2 (second d) = [s1, s2]" "is_digit s1" "is_digit s2"
    using two_digits [OF b(6)] by blast
  have eq: "strftime d time_format =
      [y1, y2, y3, y4, CHR ''-'', m1, m2, CHR ''-'', d1, d2, CHR '' '', h1, h2, CHR '':'',
       n1, n2, CHR '':'', s1, s2]"
    by (simp add: strftime_time_format y(1) m(1) dd(1) h(1) n(1) s(1))
  show "matches_format (strftime d time_format)"
    unfolding eq matches_format_def
    using y(2-) m(2-) dd(2-) h(2-) n(2-) s(2-) by simp
  show "strftime d time_format \<noteq> []" unfolding eq by simp
qed

text \<open>
  Whenever a fetch returns records, for every post: if \<^verbatim>\<open>created_at\<close> is
  \<^verbatim>\<open>None\<close>, the record's \<^verbatim>\<open>timestamp\<close> is the reading of the clock at that point of the
  loop, formatted with \<^verbatim>\<open>%Y-%m-%d %H:%M:%S\<close>; if \<^verbatim>\<open>created_at\<close> is present, it is that
  value formatted with the same pattern. For a date and time within the range of
  \<^verbatim>\<open>datetime\<close> the formatted string is not empty and has the shape of the pattern: four
  digits, two, two, two, two and two, with the separators between them.
\<close>

lemma timestamp_of_record:
  assumes "search (client self) (recent_search_request self count) = Inr response"
    and "data response = Some ts"
    and "fst (get_recent_tweets search now self count) \<noteq> []"
    and "i < length ts"
  shows "(created_at (ts ! i) = None \<longrightarrow>
            timestamp (fst (get_recent_tweets search now self count) ! i) =
              strftime (now (clock_calls_before ts i)) time_format \<and>
            (datetime_in_range (now (clock_calls_before ts i)) \<longrightarrow>
               matches_format (timestamp (fst (get_recent_tweets search now self count) ! i)) \<and>
               timestamp (fst (get_recent_tweets search now self count) ! i) \<noteq> [])) \<and>
         (created_at (ts ! i) = Some d \<longrightarrow>
            timestamp (fst (get_recent_tweets search now self count) ! i) =
              strftime d time_format \<and>
            (datetime_in_range d \<longrightarrow>
               matches_format (timestamp (fst (get_recent_tweets search now self count) ! i)) \<and>
               timestamp (fst (get_recent_tweets search now self count) ! i) \<noteq> []))"
proof -
  obtain k' where pt:
    "process_tweet (users_of response) now (clock_calls_before ts i) (ts ! i) =
       Inr (fst (get_recent_tweets search now self count) ! i, k')"
    using fetch_record_at(2) [of search self count response ts now i] assms by blast
  note t = process_tweet_Inr(4) [OF pt]
  show ?thesis
    using t strftime_matches_format [of "now (clock_calls_before ts i)"]
          strftime_matches_format [of d]
    by simp
qed


end
